theory Spec2Isabelle
  imports Main "HOL-Library.Word" "HOL-Library.Sublist" "HOL-Library.Multiset"
begin

section \<open>Data model of pkg/webhook.go\<close>

text \<open>
  Go strings and byte slices are sequences of bytes; both are modelled as \<open>string\<close>
  (a list of 8-bit characters). Only the fields that \<open>Handler\<close> and \<open>validate\<close> read or
  write are kept in the records below.
\<close>

type_synonym bytes = string

text \<open>\<open>metav1.Status\<close>: \<open>Code\<close> is an \<open>int32\<close>.\<close>

record Status =
  Message :: string
  Code :: "32 word"

text \<open>\<open>admissionV1.AdmissionResponse\<close>; its field \<open>UID\<close> is called \<open>resp_UID\<close> here.\<close>

record AdmissionResponse =
  resp_UID :: string
  Allowed :: bool
  Result :: "Status option"

text \<open>\<open>runtime.RawExtension\<close> and \<open>admissionV1.AdmissionRequest\<close>
  (\<open>Kind_Kind\<close> is the field \<open>Kind.Kind\<close>).\<close>

record RawExtension =
  Raw :: bytes

record AdmissionRequest =
  UID :: string
  Kind_Kind :: string
  Namespace :: string
  Name :: string
  Object :: RawExtension

text \<open>\<open>admissionV1.AdmissionReview\<close>: \<open>Request\<close> and \<open>Response\<close> are pointers, \<open>None\<close> is nil.\<close>

record AdmissionReview =
  Kind :: string
  APIVersion :: string
  Request :: "AdmissionRequest option"
  Response :: "AdmissionResponse option"

text \<open>\<open>corev1.Pod\<close>, down to the image of each container; the field \<open>Image\<close> of a
  container is called \<open>Image_str\<close> here.\<close>

record Container =
  Image_str :: string

record PodSpec =
  Containers :: "Container list"

record Pod =
  Spec :: PodSpec

record WebhookServer =
  WhiteListRegistries :: "string list"

text \<open>
  \<open>http.Request\<close>: \<open>Body\<close> is \<open>None\<close> for a nil body, otherwise the pair that
  \<open>ioutil.ReadAll\<close> returns on it (the data read and the error, if any).
  \<open>Header\<close> maps a canonical header name to its values.
\<close>

record http_Request =
  Body :: "(bytes \<times> string option) option"
  Header :: "string \<rightharpoonup> string list"
  URL_Path :: string

text \<open>
  \<open>http.ResponseWriter\<close>, with the behaviour net/http documents for it: the first
  \<open>WriteHeader\<close> fixes the status, a \<open>Write\<close> before any \<open>WriteHeader\<close> implies
  \<open>WriteHeader(200)\<close>. \<open>broken\<close> says that writes to the connection fail. The
  response headers, which the handler never reads, are left out.
\<close>

record ResponseWriter =
  wroteHeader :: bool
  status :: int
  written :: bytes
  broken :: bool

text \<open>
  The decoding and encoding machinery is outside the repository and is a parameter:
  \<open>Decode\<close> is \<open>deserializer.Decode(body, nil, &requestedAdmissionReview)\<close> on a zero
  \<open>AdmissionReview\<close>, giving the review as the call leaves it and the error, if any;
  \<open>Unmarshal_Pod\<close> is \<open>json.Unmarshal(raw, &pod)\<close> on a zero \<open>Pod\<close>;
  \<open>Marshal\<close> is \<open>json.Marshal\<close> on an \<open>AdmissionReview\<close>. Errors are carried as the
  text of \<open>err.Error()\<close>.
\<close>

record Codec =
  Decode :: "bytes \<Rightarrow> AdmissionReview \<times> string option"
  Unmarshal_Pod :: "bytes \<Rightarrow> string + Pod"
  Marshal :: "AdmissionReview \<Rightarrow> string + bytes"

text \<open>A run-time panic of the handler.\<close>

datatype error = NilPointerDereference

section \<open>Library functions used by the handler\<close>

definition StatusOK :: int where [simp]: "StatusOK = 200"
definition StatusBadRequest :: int where [simp]: "StatusBadRequest = 400"
definition StatusForbidden :: int where [simp]: "StatusForbidden = 403"
definition StatusInternalServerError :: int where [simp]: "StatusInternalServerError = 500"

text \<open>\<open>strings.HasPrefix(s, prefix)\<close>.\<close>

definition HasPrefix :: "string \<Rightarrow> string \<Rightarrow> bool" where
  "HasPrefix s pre \<longleftrightarrow> length s \<ge> length pre \<and> take (length pre) s = pre"

text \<open>The verb \<open>%v\<close> of package fmt on a \<open>[]string\<close>: the elements, separated by one
  space, between square brackets.\<close>

fun join_space :: "string list \<Rightarrow> string" where
  "join_space [] = []"
| "join_space [x] = x"
| "join_space (x # y # ys) = x @ '' '' @ join_space (y # ys)"

definition fmt_v :: "string list \<Rightarrow> string" where
  "fmt_v xs = ''['' @ join_space xs @ '']''"

text \<open>\<open>Header.Get\<close>: the first value of the key, or the empty string.\<close>

definition Header_Get :: "(string \<rightharpoonup> string list) \<Rightarrow> string \<Rightarrow> string" where
  "Header_Get h key = (case h key of None \<Rightarrow> [] | Some [] \<Rightarrow> [] | Some (v # vs) \<Rightarrow> v)"

definition WriteHeader :: "ResponseWriter \<Rightarrow> int \<Rightarrow> ResponseWriter" where
  "WriteHeader w code = (if wroteHeader w then w else w\<lparr>wroteHeader := True, status := code\<rparr>)"

definition Write :: "ResponseWriter \<Rightarrow> bytes \<Rightarrow> ResponseWriter \<times> string option" where
  "Write w p =
     (let w1 = WriteHeader w StatusOK
      in if broken w1 then (w1, Some ''broken pipe'')
         else (w1\<lparr>written := written w1 @ p\<rparr>, None))"

text \<open>\<open>http.Error(w, error, code)\<close>: \<open>WriteHeader(code)\<close>, then the text and a newline.\<close>

definition http_Error :: "ResponseWriter \<Rightarrow> string \<Rightarrow> int \<Rightarrow> ResponseWriter" where
  "http_Error w msg code = fst (Write (WriteHeader w code) (msg @ [CHR 0x0A]))"

text \<open>The status line the client receives once the handler has returned: the server
  sends 200 when the handler never wrote a header.\<close>

definition outer_status :: "ResponseWriter \<Rightarrow> int" where
  "outer_status w = (if wroteHeader w then status w else StatusOK)"

section \<open>\<open>WebhookServer.validate\<close>\<close>

text \<open>The inner loop over \<open>s.WhiteListRegistries\<close> (lines 131-136); it has no break.\<close>

definition whitelisted_loop :: "string list \<Rightarrow> string \<Rightarrow> bool" where
  "whitelisted_loop regs img =
     foldl (\<lambda>whitelisted reg. if HasPrefix img reg then True else whitelisted) False regs"

text \<open>The loop over \<open>pod.Spec.Containers\<close> (lines 130-144) on the variables
  \<open>(allowed, code, message)\<close>; it breaks at the first container that is not whitelisted.\<close>

fun containers_loop ::
  "string list \<Rightarrow> Container list \<Rightarrow> bool \<times> int \<times> string \<Rightarrow> bool \<times> int \<times> string" where
  "containers_loop regs [] (allowed, code, message) = (allowed, code, message)"
| "containers_loop regs (container # rest) (allowed, code, message) =
     (if \<not> whitelisted_loop regs (Image_str container)
      then (False, StatusForbidden,
            Image_str container @ '' image comes from untrusted registry! Only images form ''
              @ fmt_v regs @ '' are allowed.'')
      else containers_loop regs rest (allowed, code, message))"

text \<open>\<open>validate\<close>: \<open>req.Kind.Kind\<close> in the log call of line 113 dereferences \<open>ar.Request\<close>,
  which panics on nil.\<close>

definition validate :: "Codec \<Rightarrow> WebhookServer \<Rightarrow> AdmissionReview \<Rightarrow> error + AdmissionResponse" where
  "validate k s ar =
     (case Request ar of
        None \<Rightarrow> Inl NilPointerDereference
      | Some req \<Rightarrow>
          (case Unmarshal_Pod k (Raw (Object req)) of
             Inl err \<Rightarrow>
               Inr \<lparr>resp_UID = [], Allowed = False,
                    Result = Some \<lparr>Message = err, Code = word_of_int StatusBadRequest\<rparr>\<rparr>
           | Inr pod \<Rightarrow>
               (case containers_loop (WhiteListRegistries s) (Containers (Spec pod))
                       (True, 200, []) of
                  (allowed, code, message) \<Rightarrow>
                    Inr \<lparr>resp_UID = [], Allowed = allowed,
                         Result = Some \<lparr>Message = message, Code = word_of_int code\<rparr>\<rparr>)))"

section \<open>\<open>WebhookServer.Handler\<close>\<close>

text \<open>
  The handler returns the response writer as it leaves it, or the panic that aborted it.
  Calls of klog only log and are left out. The branch for a wrong content type
  (lines 50-54) only logs: line 52 calls \<open>klog.Error\<close> with the writer as an argument,
  so nothing is written.
\<close>

definition Handler ::
  "Codec \<Rightarrow> WebhookServer \<Rightarrow> ResponseWriter \<Rightarrow> http_Request \<Rightarrow> error + ResponseWriter" where
  "Handler k s writer request =
     (let body = (case Body request of
                    None \<Rightarrow> []
                  | Some (data, err) \<Rightarrow> (if err = None then data else []))
      in if length body = 0
         then Inr (http_Error writer ''empty data body'' StatusBadRequest)
         else
           let contentType = Header_Get (Header request) ''Content-Type''
           in if contentType \<noteq> ''application/json''
              then Inr writer
              else
                (case Decode k body of
                   (requestedAdmissionReview, err) \<Rightarrow>
                     (case (case err of
                              Some e \<Rightarrow>
                                Inr (Some \<lparr>resp_UID = [], Allowed = False,
                                           Result = Some \<lparr>Message = e,
                                             Code = word_of_int StatusInternalServerError\<rparr>\<rparr>)
                            | None \<Rightarrow>
                                if URL_Path request = ''/mutate'' then Inr None
                                else if URL_Path request = ''/validate''
                                then map_sum id Some (validate k s requestedAdmissionReview)
                                else Inr None) of
                        Inl panic \<Rightarrow> Inl panic
                      | Inr admissionResponse \<Rightarrow>
                          (let responseAdmissionReview =
                                 \<lparr>Kind = Kind requestedAdmissionReview,
                                  APIVersion = APIVersion requestedAdmissionReview,
                                  Request = None,
                                  Response =
                                    (case admissionResponse of
                                       None \<Rightarrow> None
                                     | Some r \<Rightarrow>
                                         (case Request requestedAdmissionReview of
                                            None \<Rightarrow> Some r
                                          | Some req \<Rightarrow> Some (r\<lparr>resp_UID := UID req\<rparr>)))\<rparr>
                           in case Marshal k responseAdmissionReview of
                                Inl e \<Rightarrow>
                                  Inr (http_Error writer (''Can't encode response: '' @ e)
                                         StatusBadRequest)
                              | Inr respBytes \<Rightarrow>
                                  (case Write writer respBytes of
                                     (w, None) \<Rightarrow> Inr w
                                   | (w, Some e) \<Rightarrow>
                                       Inr (http_Error w (''Can't write response: '' @ e)
                                              StatusBadRequest))))))"

section \<open>Notions of the specification\<close>

text \<open>
  A container is compliant with a policy iff at least one prefix of the policy is a
  literal prefix of its image reference.
\<close>

definition compliant :: "string list \<Rightarrow> Container \<Rightarrow> bool" where
  "compliant regs c \<longleftrightarrow> (\<exists>reg\<in>set regs. prefix reg (Image_str c))"

text \<open>
  The handler, started on \<open>writer\<close>, has returned \<open>res\<close>: it wrote the encoding of the
  envelope \<open>review\<close> and nothing else, and the client sees the status 200.
\<close>

definition envelope_written ::
  "Codec \<Rightarrow> ResponseWriter \<Rightarrow> AdmissionReview \<Rightarrow> error + ResponseWriter \<Rightarrow> bool" where
  "envelope_written k writer review res =
     (case Marshal k review of
        Inl e \<Rightarrow> False
      | Inr bs \<Rightarrow>
          (case res of
             Inl panic \<Rightarrow> False
           | Inr w \<Rightarrow> outer_status w = StatusOK \<and> written w = written writer @ bs))"

section \<open>Example inputs\<close>

text \<open>
  A policy of two registries, three pod payloads with the pods they decode to, the
  review bodies around them, and a codec that knows exactly these bodies. Its encoder
  renders the fields of the response envelope in the order of the JSON encoding.
\<close>

definition ex_server :: WebhookServer where
  "ex_server = \<lparr>WhiteListRegistries = [''docker.io/library/'', ''gcr.io/myorg/'']\<rparr>"

definition ex_pod_bad :: Pod where
  "ex_pod_bad = \<lparr>Spec = \<lparr>Containers =
     [\<lparr>Image_str = ''docker.io/library/nginx:1.21''\<rparr>,
      \<lparr>Image_str = ''evil.com/malware:latest''\<rparr>]\<rparr>\<rparr>"

definition ex_pod_good :: Pod where
  "ex_pod_good = \<lparr>Spec = \<lparr>Containers = [\<lparr>Image_str = ''gcr.io/myorg/app:v2''\<rparr>]\<rparr>\<rparr>"

definition ex_raw_bad :: bytes where
  \<open>ex_raw_bad = ''{"spec":{"containers":[{"image":"docker.io/library/nginx:1.21"},{"image":"evil.com/malware:latest"}]}}''\<close>

definition ex_raw_good :: bytes where
  \<open>ex_raw_good = ''{"spec":{"containers":[{"image":"gcr.io/myorg/app:v2"}]}}''\<close>

definition ex_raw_notpod :: bytes where
  \<open>ex_raw_notpod = ''{"spec":{"containers":"none"}}''\<close>

definition ex_Unmarshal_Pod :: "bytes \<Rightarrow> string + Pod" where
  "ex_Unmarshal_Pod raw =
     (if raw = ex_raw_bad then Inr ex_pod_bad
      else if raw = ex_raw_good then Inr ex_pod_good
      else Inl ''json: cannot unmarshal string into Go struct field PodSpec.spec.containers of type []v1.Container'')"

definition ex_review :: "bytes \<Rightarrow> AdmissionReview" where
  "ex_review raw =
     \<lparr>Kind = ''AdmissionReview'', APIVersion = ''admission.k8s.io/v1'',
      Request = Some \<lparr>UID = ''705ab4f5-6393-11e8-b7cc-42010a800002'', Kind_Kind = ''Pod'',
                       Namespace = ''default'', Name = ''web'', Object = \<lparr>Raw = raw\<rparr>\<rparr>,
      Response = None\<rparr>"

definition ex_body :: "bytes \<Rightarrow> bytes" where
  \<open>ex_body raw =
     ''{"kind":"AdmissionReview","apiVersion":"admission.k8s.io/v1","request":{"uid":"705ab4f5-6393-11e8-b7cc-42010a800002","kind":{"kind":"Pod"},"namespace":"default","name":"web","object":''
     @ raw @ ''}}''\<close>

definition ex_body_norequest :: bytes where
  \<open>ex_body_norequest = ''{"kind":"AdmissionReview","apiVersion":"admission.k8s.io/v1"}''\<close>

definition ex_Decode :: "bytes \<Rightarrow> AdmissionReview \<times> string option" where
  "ex_Decode body =
     (if body = ex_body ex_raw_bad then (ex_review ex_raw_bad, None)
      else if body = ex_body ex_raw_good then (ex_review ex_raw_good, None)
      else if body = ex_body ex_raw_notpod then (ex_review ex_raw_notpod, None)
      else if body = ex_body_norequest
      then (\<lparr>Kind = ''AdmissionReview'', APIVersion = ''admission.k8s.io/v1'',
             Request = None, Response = None\<rparr>, None)
      else (\<lparr>Kind = [], APIVersion = [], Request = None, Response = None\<rparr>,
            Some ''couldn't get version/kind; json parse error''))"

fun dec :: "nat \<Rightarrow> string" where
  "dec n = (if n < 10 then [char_of (48 + n)] else dec (n div 10) @ [char_of (48 + n mod 10)])"

declare dec.simps [simp del]

definition ex_encode :: "AdmissionReview \<Rightarrow> bytes" where
  \<open>ex_encode review =
     ''{"kind":"'' @ Kind review @ ''","apiVersion":"'' @ APIVersion review @ ''"''
     @ (case Response review of
          None \<Rightarrow> []
        | Some r \<Rightarrow>
            '',"response":{"uid":"'' @ resp_UID r @ ''","allowed":''
            @ (if Allowed r then ''true'' else ''false'')
            @ (case Result r of
                 None \<Rightarrow> []
               | Some st \<Rightarrow> '',"status":{"message":"'' @ Message st @ ''","code":''
                             @ dec (unat (Code st)) @ ''}'')
            @ ''}'')
     @ ''}''\<close>

definition ex_codec :: Codec where
  "ex_codec = \<lparr>Decode = ex_Decode, Unmarshal_Pod = ex_Unmarshal_Pod,
               Marshal = (\<lambda>review. Inr (ex_encode review))\<rparr>"

definition ex_writer :: ResponseWriter where
  "ex_writer = \<lparr>wroteHeader = False, status = 0, written = [], broken = False\<rparr>"

definition ex_request :: "string \<Rightarrow> string \<Rightarrow> bytes \<Rightarrow> http_Request" where
  "ex_request path ctype body =
     \<lparr>Body = Some (body, None), Header = [''Content-Type'' \<mapsto> [ctype]], URL_Path = path\<rparr>"

lemmas ex_defs = ex_codec_def ex_writer_def ex_request_def ex_Decode_def ex_body_def
  ex_body_norequest_def ex_review_def ex_Unmarshal_Pod_def ex_raw_bad_def ex_raw_good_def
  ex_raw_notpod_def ex_pod_bad_def ex_pod_good_def ex_server_def

section \<open>Library functions: facts\<close>

lemma HasPrefix_prefix: "HasPrefix s p \<longleftrightarrow> prefix p s"
  unfolding HasPrefix_def
proof
  assume "length p \<le> length s \<and> take (length p) s = p"
  then have "s = p @ drop (length p) s" by (metis append_take_drop_id)
  then show "prefix p s" by (metis prefixI)
next
  assume "prefix p s"
  then obtain r where "s = p @ r" by (auto elim: prefixE)
  then show "length p \<le> length s \<and> take (length p) s = p" by simp
qed

lemma Write_fresh:
  "\<not> wroteHeader w \<Longrightarrow> \<not> broken w \<Longrightarrow>
   Write w p = (w\<lparr>wroteHeader := True, status := StatusOK, written := written w @ p\<rparr>, None)"
  by (simp add: Write_def WriteHeader_def Let_def)

section \<open>The loops of \<open>validate\<close>\<close>

text \<open>The inner loop computes a disjunction over the policy, whatever it starts from.\<close>

lemma foldl_whitelisted:
  "foldl (\<lambda>whitelisted reg. if HasPrefix img reg then True else whitelisted) acc regs
     \<longleftrightarrow> acc \<or> (\<exists>reg\<in>set regs. HasPrefix img reg)"
  by (induction regs arbitrary: acc) auto

lemma whitelisted_loop_compliant: "whitelisted_loop regs (Image_str c) \<longleftrightarrow> compliant regs c"
proof -
  have "whitelisted_loop regs (Image_str c)
          \<longleftrightarrow> (\<exists>reg\<in>set regs. HasPrefix (Image_str c) reg)"
    unfolding whitelisted_loop_def by (subst foldl_whitelisted) simp
  also have "\<dots> \<longleftrightarrow> compliant regs c"
    by (simp add: compliant_def HasPrefix_prefix)
  finally show ?thesis .
qed

lemma containers_loop_all_compliant:
  "\<forall>c\<in>set cs. compliant regs c \<Longrightarrow> containers_loop regs cs st = st"
proof (induction cs)
  case Nil
  show ?case by (cases st) simp
next
  case (Cons c cs)
  then show ?case by (cases st) (simp add: whitelisted_loop_compliant)
qed

lemma containers_loop_first_violation:
  assumes "\<forall>p\<in>set pre. compliant regs p" and "\<not> compliant regs c"
  shows "containers_loop regs (pre @ c # post) st =
           (False, 403, Image_str c @ '' image comes from untrusted registry! Only images form ''
              @ fmt_v regs @ '' are allowed.'')"
  using assms(1)
proof (induction pre)
  case Nil
  show ?case using assms(2) by (cases st) (simp add: whitelisted_loop_compliant)
next
  case (Cons p pre)
  then show ?case by (cases st) (simp add: whitelisted_loop_compliant)
qed

text \<open>The outer loop is a search for the first container that is not compliant.\<close>

lemma containers_loop_find:
  "containers_loop regs cs (True, 200, []) =
     (case find (\<lambda>c. \<not> compliant regs c) cs of
        None \<Rightarrow> (True, 200, [])
      | Some c \<Rightarrow> (False, 403, Image_str c
            @ '' image comes from untrusted registry! Only images form ''
            @ fmt_v regs @ '' are allowed.''))"
  by (induction cs) (simp_all add: whitelisted_loop_compliant)

lemma find_Some_member: "find P xs = Some x \<Longrightarrow> x \<in> set xs"
  by (induction xs) (auto split: if_splits)

section \<open>The decision of \<open>validate\<close>\<close>

text \<open>
  Claim C1. When the workload has a container whose image starts with no prefix of the
  policy, \<open>validate\<close> denies with code 403; the container \<open>c\<close> it reports is the first such
  container in the order of the list (every container before it is compliant, the
  containers after it are not looked at), and the message is the image reference of \<open>c\<close>
  followed by the fixed text and the policy rendered as a list.
\<close>

theorem validate_denies_first_untrusted_image:
  assumes "Request ar = Some req"
    and "Unmarshal_Pod k (Raw (Object req)) = Inr pod"
    and "\<exists>c\<in>set (Containers (Spec pod)). \<not> compliant (WhiteListRegistries s) c"
  shows "\<exists>pre c post.
           Containers (Spec pod) = pre @ c # post
         \<and> (\<forall>p\<in>set pre. compliant (WhiteListRegistries s) p)
         \<and> \<not> compliant (WhiteListRegistries s) c
         \<and> validate k s ar =
             Inr \<lparr>resp_UID = [], Allowed = False,
                  Result = Some \<lparr>Message = Image_str c
                      @ '' image comes from untrusted registry! Only images form ''
                      @ fmt_v (WhiteListRegistries s) @ '' are allowed.'',
                    Code = 403\<rparr>\<rparr>"
proof -
  from assms(3) obtain pre c post where split: "Containers (Spec pod) = pre @ c # post"
    and c: "\<not> compliant (WhiteListRegistries s) c"
    and pre: "\<forall>p\<in>set pre. \<not> \<not> compliant (WhiteListRegistries s) p"
    using split_list_first_prop
      [of "Containers (Spec pod)" "\<lambda>c. \<not> compliant (WhiteListRegistries s) c"]
    by blast
  from pre have pre': "\<forall>p\<in>set pre. compliant (WhiteListRegistries s) p" by simp
  have "validate k s ar =
             Inr \<lparr>resp_UID = [], Allowed = False,
                  Result = Some \<lparr>Message = Image_str c
                      @ '' image comes from untrusted registry! Only images form ''
                      @ fmt_v (WhiteListRegistries s) @ '' are allowed.'',
                    Code = 403\<rparr>\<rparr>"
    using assms(1,2)
    by (simp add: validate_def split containers_loop_first_violation [OF pre' c])
  with split c pre' show ?thesis by blast
qed

text \<open>The example of the specification: nginx from the library is accepted, the image
  from evil.com is the one reported.\<close>

theorem validate_denies_first_untrusted_image_witness:
  "validate ex_codec ex_server (ex_review ex_raw_bad) =
     Inr \<lparr>resp_UID = [], Allowed = False,
          Result = Some \<lparr>Message = ''evil.com/malware:latest image comes from untrusted registry! Only images form [docker.io/library/ gcr.io/myorg/] are allowed.'',
                          Code = 403\<rparr>\<rparr>"
proof -
  have h1: "Request (ex_review ex_raw_bad) =
              Some \<lparr>UID = ''705ab4f5-6393-11e8-b7cc-42010a800002'', Kind_Kind = ''Pod'',
                    Namespace = ''default'', Name = ''web'', Object = \<lparr>Raw = ex_raw_bad\<rparr>\<rparr>"
    by (simp add: ex_review_def)
  have h2: "Unmarshal_Pod ex_codec (Raw (Object \<lparr>UID = ''705ab4f5-6393-11e8-b7cc-42010a800002'',
              Kind_Kind = ''Pod'', Namespace = ''default'', Name = ''web'',
              Object = \<lparr>Raw = ex_raw_bad\<rparr>\<rparr>)) = Inr ex_pod_bad"
    by (simp add: ex_codec_def ex_Unmarshal_Pod_def)
  have h3: "\<exists>c\<in>set (Containers (Spec ex_pod_bad)). \<not> compliant (WhiteListRegistries ex_server) c"
    by (simp add: ex_pod_bad_def ex_server_def compliant_def)
  from validate_denies_first_untrusted_image [OF h1 h2 h3]
  obtain pre c post where split: "Containers (Spec ex_pod_bad) = pre @ c # post"
    and pre: "\<forall>p\<in>set pre. compliant (WhiteListRegistries ex_server) p"
    and c: "\<not> compliant (WhiteListRegistries ex_server) c"
    and v: "validate ex_codec ex_server (ex_review ex_raw_bad) =
             Inr \<lparr>resp_UID = [], Allowed = False,
                  Result = Some \<lparr>Message = Image_str c
                      @ '' image comes from untrusted registry! Only images form ''
                      @ fmt_v (WhiteListRegistries ex_server) @ '' are allowed.'',
                    Code = 403\<rparr>\<rparr>"
    by blast
  have "c \<in> set (Containers (Spec ex_pod_bad))" using split by simp
  with c have "c = \<lparr>Image_str = ''evil.com/malware:latest''\<rparr>"
    by (auto simp add: ex_pod_bad_def ex_server_def compliant_def)
  with v show ?thesis by (simp add: ex_server_def fmt_v_def)
qed

text \<open>
  Claim C2. When every container of the workload is compliant, and so when the workload
  has no container at all, \<open>validate\<close> allows with code 200 and the empty message.
\<close>

theorem validate_allows_compliant_workload:
  assumes "Request ar = Some req"
    and "Unmarshal_Pod k (Raw (Object req)) = Inr pod"
    and "\<forall>c\<in>set (Containers (Spec pod)). compliant (WhiteListRegistries s) c"
  shows "validate k s ar =
           Inr \<lparr>resp_UID = [], Allowed = True, Result = Some \<lparr>Message = [], Code = 200\<rparr>\<rparr>"
  using assms by (simp add: validate_def containers_loop_all_compliant)

theorem validate_allows_compliant_workload_witness:
  "validate ex_codec ex_server (ex_review ex_raw_good) =
     Inr \<lparr>resp_UID = [], Allowed = True, Result = Some \<lparr>Message = [], Code = 200\<rparr>\<rparr>"
proof -
  have h1: "Request (ex_review ex_raw_good) =
              Some \<lparr>UID = ''705ab4f5-6393-11e8-b7cc-42010a800002'', Kind_Kind = ''Pod'',
                    Namespace = ''default'', Name = ''web'', Object = \<lparr>Raw = ex_raw_good\<rparr>\<rparr>"
    by (simp add: ex_review_def)
  have h2: "Unmarshal_Pod ex_codec (Raw (Object \<lparr>UID = ''705ab4f5-6393-11e8-b7cc-42010a800002'',
              Kind_Kind = ''Pod'', Namespace = ''default'', Name = ''web'',
              Object = \<lparr>Raw = ex_raw_good\<rparr>\<rparr>)) = Inr ex_pod_good"
    by (simp add: ex_codec_def ex_Unmarshal_Pod_def ex_raw_good_def ex_raw_bad_def)
  have h3: "\<forall>c\<in>set (Containers (Spec ex_pod_good)). compliant (WhiteListRegistries ex_server) c"
    by (simp add: ex_pod_good_def ex_server_def compliant_def)
  show ?thesis
    using validate_allows_compliant_workload [OF h1 h2 h3] by simp
qed

text \<open>
  Claim C8. With the empty policy, a workload that has a container is denied: no prefix
  can match, so the first container is reported with code 403.
\<close>

theorem validate_empty_policy_denies:
  assumes "Request ar = Some req"
    and "Unmarshal_Pod k (Raw (Object req)) = Inr pod"
    and "Containers (Spec pod) = c # rest"
    and "WhiteListRegistries s = []"
  shows "validate k s ar =
           Inr \<lparr>resp_UID = [], Allowed = False,
                Result = Some \<lparr>Message = Image_str c
                    @ '' image comes from untrusted registry! Only images form [] are allowed.'',
                  Code = 403\<rparr>\<rparr>"
  using assms by (simp add: validate_def whitelisted_loop_def fmt_v_def)

theorem validate_empty_policy_denies_witness:
  "validate ex_codec \<lparr>WhiteListRegistries = []\<rparr> (ex_review ex_raw_good) =
     Inr \<lparr>resp_UID = [], Allowed = False,
          Result = Some \<lparr>Message = ''gcr.io/myorg/app:v2 image comes from untrusted registry! Only images form [] are allowed.'',
                          Code = 403\<rparr>\<rparr>"
proof -
  have h1: "Request (ex_review ex_raw_good) =
              Some \<lparr>UID = ''705ab4f5-6393-11e8-b7cc-42010a800002'', Kind_Kind = ''Pod'',
                    Namespace = ''default'', Name = ''web'', Object = \<lparr>Raw = ex_raw_good\<rparr>\<rparr>"
    by (simp add: ex_review_def)
  have h2: "Unmarshal_Pod ex_codec (Raw (Object \<lparr>UID = ''705ab4f5-6393-11e8-b7cc-42010a800002'',
              Kind_Kind = ''Pod'', Namespace = ''default'', Name = ''web'',
              Object = \<lparr>Raw = ex_raw_good\<rparr>\<rparr>)) = Inr ex_pod_good"
    by (simp add: ex_codec_def ex_Unmarshal_Pod_def ex_raw_good_def ex_raw_bad_def)
  have h3: "Containers (Spec ex_pod_good) = \<lparr>Image_str = ''gcr.io/myorg/app:v2''\<rparr> # []"
    by (simp add: ex_pod_good_def)
  have h4: "WhiteListRegistries \<lparr>WhiteListRegistries = []\<rparr> = []" by simp
  show ?thesis
    using validate_empty_policy_denies [OF h1 h2 h3 h4] by simp
qed

text \<open>
  Claim C10. A policy that holds the empty string allows every workload: the empty
  string is a prefix of every image reference.
\<close>

theorem validate_empty_prefix_allows_all:
  assumes "Request ar = Some req"
    and "Unmarshal_Pod k (Raw (Object req)) = Inr pod"
    and "[] \<in> set (WhiteListRegistries s)"
  shows "validate k s ar =
           Inr \<lparr>resp_UID = [], Allowed = True, Result = Some \<lparr>Message = [], Code = 200\<rparr>\<rparr>"
proof -
  have "\<forall>c\<in>set (Containers (Spec pod)). compliant (WhiteListRegistries s) c"
    using assms(3) unfolding compliant_def by (metis Nil_prefix)
  then show ?thesis
    using assms(1,2) by (simp add: validate_def containers_loop_all_compliant)
qed

theorem validate_empty_prefix_allows_all_witness:
  "validate ex_codec \<lparr>WhiteListRegistries = [''gcr.io/myorg/'', []]\<rparr> (ex_review ex_raw_bad) =
     Inr \<lparr>resp_UID = [], Allowed = True, Result = Some \<lparr>Message = [], Code = 200\<rparr>\<rparr>"
proof -
  have h1: "Request (ex_review ex_raw_bad) =
              Some \<lparr>UID = ''705ab4f5-6393-11e8-b7cc-42010a800002'', Kind_Kind = ''Pod'',
                    Namespace = ''default'', Name = ''web'', Object = \<lparr>Raw = ex_raw_bad\<rparr>\<rparr>"
    by (simp add: ex_review_def)
  have h2: "Unmarshal_Pod ex_codec (Raw (Object \<lparr>UID = ''705ab4f5-6393-11e8-b7cc-42010a800002'',
              Kind_Kind = ''Pod'', Namespace = ''default'', Name = ''web'',
              Object = \<lparr>Raw = ex_raw_bad\<rparr>\<rparr>)) = Inr ex_pod_bad"
    by (simp add: ex_codec_def ex_Unmarshal_Pod_def)
  have h3: "[] \<in> set (WhiteListRegistries \<lparr>WhiteListRegistries = [''gcr.io/myorg/'', []]\<rparr>)"
    by simp
  show ?thesis
    using validate_empty_prefix_allows_all [OF h1 h2 h3] by simp
qed

text \<open>
  Claim C9, as amended. For two policies that are permutations of each other, \<open>validate\<close>
  gives the same verdict on every workload: either both allow with code 200 and the empty
  message, or both deny with code 403 and report the same container. The message of a
  denial renders the policy in its own order, so the two messages agree up to that
  rendering only.
\<close>

theorem validate_policy_order_verdict:
  assumes "mset (WhiteListRegistries s) = mset (WhiteListRegistries s')"
    and "Request ar = Some req"
    and "Unmarshal_Pod k (Raw (Object req)) = Inr pod"
  shows "validate k s ar =
           Inr \<lparr>resp_UID = [], Allowed = True, Result = Some \<lparr>Message = [], Code = 200\<rparr>\<rparr>
         \<and> validate k s' ar =
           Inr \<lparr>resp_UID = [], Allowed = True, Result = Some \<lparr>Message = [], Code = 200\<rparr>\<rparr>
       \<or> (\<exists>c. c \<in> set (Containers (Spec pod))
            \<and> validate k s ar =
                Inr \<lparr>resp_UID = [], Allowed = False,
                     Result = Some \<lparr>Message = Image_str c
                         @ '' image comes from untrusted registry! Only images form ''
                         @ fmt_v (WhiteListRegistries s) @ '' are allowed.'', Code = 403\<rparr>\<rparr>
            \<and> validate k s' ar =
                Inr \<lparr>resp_UID = [], Allowed = False,
                     Result = Some \<lparr>Message = Image_str c
                         @ '' image comes from untrusted registry! Only images form ''
                         @ fmt_v (WhiteListRegistries s') @ '' are allowed.'', Code = 403\<rparr>\<rparr>)"
proof -
  from assms(1) have "set (WhiteListRegistries s) = set (WhiteListRegistries s')"
    by (metis set_mset_mset)
  then have eq: "(\<lambda>c. \<not> compliant (WhiteListRegistries s) c)
                   = (\<lambda>c. \<not> compliant (WhiteListRegistries s') c)"
    by (simp add: compliant_def)
  show ?thesis
  proof (cases "find (\<lambda>c. \<not> compliant (WhiteListRegistries s') c) (Containers (Spec pod))")
    case None
    then show ?thesis
      using assms(2,3) by (simp add: validate_def containers_loop_find eq)
  next
    case (Some c)
    then have "c \<in> set (Containers (Spec pod))" by (rule find_Some_member)
    then show ?thesis
      using Some assms(2,3) by (auto simp add: validate_def containers_loop_find eq)
  qed
qed

theorem validate_policy_order_verdict_witness:
  "validate ex_codec \<lparr>WhiteListRegistries = [''docker.io/library/'', ''gcr.io/myorg/'']\<rparr>
       (ex_review ex_raw_bad) =
     Inr \<lparr>resp_UID = [], Allowed = False,
          Result = Some \<lparr>Message = ''evil.com/malware:latest image comes from untrusted registry! Only images form [docker.io/library/ gcr.io/myorg/] are allowed.'',
                          Code = 403\<rparr>\<rparr>
   \<and> validate ex_codec \<lparr>WhiteListRegistries = [''gcr.io/myorg/'', ''docker.io/library/'']\<rparr>
       (ex_review ex_raw_bad) =
     Inr \<lparr>resp_UID = [], Allowed = False,
          Result = Some \<lparr>Message = ''evil.com/malware:latest image comes from untrusted registry! Only images form [gcr.io/myorg/ docker.io/library/] are allowed.'',
                          Code = 403\<rparr>\<rparr>"
proof -
  let ?s = "\<lparr>WhiteListRegistries = [''docker.io/library/'', ''gcr.io/myorg/'']\<rparr>"
  let ?s' = "\<lparr>WhiteListRegistries = [''gcr.io/myorg/'', ''docker.io/library/'']\<rparr>"
  have h0: "mset (WhiteListRegistries ?s) = mset (WhiteListRegistries ?s')"
    by (simp add: add_mset_commute)
  have h1: "Request (ex_review ex_raw_bad) =
              Some \<lparr>UID = ''705ab4f5-6393-11e8-b7cc-42010a800002'', Kind_Kind = ''Pod'',
                    Namespace = ''default'', Name = ''web'', Object = \<lparr>Raw = ex_raw_bad\<rparr>\<rparr>"
    by (simp add: ex_review_def)
  have h2: "Unmarshal_Pod ex_codec (Raw (Object \<lparr>UID = ''705ab4f5-6393-11e8-b7cc-42010a800002'',
              Kind_Kind = ''Pod'', Namespace = ''default'', Name = ''web'',
              Object = \<lparr>Raw = ex_raw_bad\<rparr>\<rparr>)) = Inr ex_pod_bad"
    by (simp add: ex_codec_def ex_Unmarshal_Pod_def)
  have nginx: "validate ex_codec ?s (ex_review ex_raw_bad) \<noteq>
           Inr \<lparr>resp_UID = [], Allowed = False,
                Result = Some \<lparr>Message = Image_str \<lparr>Image_str = ''docker.io/library/nginx:1.21''\<rparr>
                    @ '' image comes from untrusted registry! Only images form ''
                    @ fmt_v (WhiteListRegistries ?s) @ '' are allowed.'', Code = 403\<rparr>\<rparr>"
    by (simp add: validate_def ex_defs whitelisted_loop_def HasPrefix_def)
  have allow: "validate ex_codec ?s (ex_review ex_raw_bad) \<noteq>
           Inr \<lparr>resp_UID = [], Allowed = True, Result = Some \<lparr>Message = [], Code = 200\<rparr>\<rparr>"
    by (simp add: validate_def ex_defs whitelisted_loop_def HasPrefix_def)
  show ?thesis
    using validate_policy_order_verdict [OF h0 h1 h2] nginx allow
    by (auto simp add: ex_pod_bad_def fmt_v_def)
qed

text \<open>The claim as stated fails: the two policies below are permutations of each other
  and the two decisions differ, in their messages.\<close>

theorem validate_policy_order_counterexample:
  "mset [''docker.io/library/'', ''gcr.io/myorg/''] = mset [''gcr.io/myorg/'', ''docker.io/library/'']
   \<and> validate ex_codec \<lparr>WhiteListRegistries = [''docker.io/library/'', ''gcr.io/myorg/'']\<rparr>
         (ex_review ex_raw_bad)
     \<noteq> validate ex_codec \<lparr>WhiteListRegistries = [''gcr.io/myorg/'', ''docker.io/library/'']\<rparr>
         (ex_review ex_raw_bad)"
  by (simp add: add_mset_commute validate_def ex_defs whitelisted_loop_def HasPrefix_def fmt_v_def)

section \<open>The handler\<close>

text \<open>The handler after the two transport checks and the call of the decoder.\<close>

lemma Handler_decoded:
  assumes "Body request = Some (body, None)" and "body \<noteq> []"
    and "Header_Get (Header request) ''Content-Type'' = ''application/json''"
    and "Decode k body = (ar, err)"
  shows "Handler k s writer request =
     (case (case err of
              Some e \<Rightarrow>
                Inr (Some \<lparr>resp_UID = [], Allowed = False,
                           Result = Some \<lparr>Message = e, Code = 500\<rparr>\<rparr>)
            | None \<Rightarrow>
                if URL_Path request = ''/mutate'' then Inr None
                else if URL_Path request = ''/validate''
                then map_sum id Some (validate k s ar)
                else Inr None) of
        Inl panic \<Rightarrow> Inl panic
      | Inr admissionResponse \<Rightarrow>
          (case Marshal k \<lparr>Kind = Kind ar, APIVersion = APIVersion ar, Request = None,
                  Response =
                    (case admissionResponse of
                       None \<Rightarrow> None
                     | Some r \<Rightarrow>
                         (case Request ar of
                            None \<Rightarrow> Some r
                          | Some req \<Rightarrow> Some (r\<lparr>resp_UID := UID req\<rparr>)))\<rparr> of
                Inl e \<Rightarrow>
                  Inr (http_Error writer (''Can't encode response: '' @ e) StatusBadRequest)
              | Inr respBytes \<Rightarrow>
                  (case Write writer respBytes of
                     (w, None) \<Rightarrow> Inr w
                   | (w, Some e) \<Rightarrow>
                       Inr (http_Error w (''Can't write response: '' @ e) StatusBadRequest))))"
  using assms
  by (auto simp add: Handler_def Let_def split: option.splits sum.splits prod.splits)

text \<open>A review with a request never makes \<open>validate\<close> panic.\<close>

lemma validate_with_request:
  assumes "Request ar = Some req"
  shows "\<exists>r. validate k s ar = Inr r"
  using assms by (auto simp add: validate_def split: sum.splits prod.splits)

text \<open>What the two faulty paths do on every input, not only on the examples below.\<close>

lemma Handler_wrong_content_type:
  assumes "Body request = Some (body, None)" and "body \<noteq> []"
    and "Header_Get (Header request) ''Content-Type'' \<noteq> ''application/json''"
  shows "Handler k s writer request = Inr writer"
  using assms by (simp add: Handler_def Let_def)

lemma Handler_nil_Request_panics:
  assumes "Body request = Some (body, None)" and "body \<noteq> []"
    and "Header_Get (Header request) ''Content-Type'' = ''application/json''"
    and "Decode k body = (ar, None)"
    and "Request ar = None"
    and "URL_Path request = ''/validate''"
  shows "Handler k s writer request = Inl NilPointerDereference"
  using assms(5,6) by (simp add: Handler_decoded [OF assms(1-4)] validate_def)

text \<open>
  Claim C3. A body that decodes to a review without a request, sent to \<open>/validate\<close> with
  the right content type, makes the handler panic in \<open>validate\<close>: no response is written.
\<close>

theorem Handler_missing_request_panics:
  "Handler ex_codec ex_server ex_writer
     (ex_request ''/validate'' ''application/json'' ex_body_norequest)
     = Inl NilPointerDereference"
  by (simp add: Handler_def Let_def Header_Get_def validate_def ex_defs)

text \<open>
  Claim C4. A request with a body and the content type \<open>text/plain\<close> is not decoded and no
  envelope is built, but the handler returns the writer untouched: no status 400 is set,
  nothing is written, and the client sees the status 200.
\<close>

theorem Handler_text_plain_not_rejected:
  "Handler ex_codec ex_server ex_writer
     (ex_request ''/validate'' ''text/plain'' (ex_body ex_raw_good))
     = Inr ex_writer
   \<and> outer_status ex_writer = 200 \<and> written ex_writer = []"
  by (simp add: Handler_def Let_def Header_Get_def ex_request_def ex_body_def
        outer_status_def ex_writer_def)

text \<open>
  Claim C5. When the transport checks pass and the decoder fails with the error \<open>e\<close>, the
  handler writes, with status 200, the envelope that mirrors the kind and version the
  decoder left behind and whose decision is: not allowed, code 500, message \<open>e\<close>.
  The only thing asked of the encoder is that it encodes this one envelope; the writer is
  fresh and its connection open.
\<close>

theorem Handler_decode_failure:
  assumes "Body request = Some (body, None)" and "body \<noteq> []"
    and "Header_Get (Header request) ''Content-Type'' = ''application/json''"
    and "Decode k body = (ar, Some e)"
    and "Marshal k
           \<lparr>Kind = Kind ar, APIVersion = APIVersion ar, Request = None,
            Response = Some \<lparr>resp_UID = (case Request ar of None \<Rightarrow> [] | Some req \<Rightarrow> UID req),
                              Allowed = False,
                              Result = Some \<lparr>Message = e, Code = 500\<rparr>\<rparr>\<rparr> = Inr bs"
    and "\<not> wroteHeader writer" and "\<not> broken writer"
  shows "envelope_written k writer
           \<lparr>Kind = Kind ar, APIVersion = APIVersion ar, Request = None,
            Response = Some \<lparr>resp_UID = (case Request ar of None \<Rightarrow> [] | Some req \<Rightarrow> UID req),
                              Allowed = False,
                              Result = Some \<lparr>Message = e, Code = 500\<rparr>\<rparr>\<rparr>
           (Handler k s writer request)"
proof -
  have "Handler k s writer request =
          Inr (writer\<lparr>wroteHeader := True, status := StatusOK, written := written writer @ bs\<rparr>)"
    using assms(5)
    by (simp add: Handler_decoded [OF assms(1-4)] Write_fresh [OF assms(6,7)]
          split: option.splits)
  then show ?thesis using assms(5) by (simp add: envelope_written_def outer_status_def)
qed

theorem Handler_decode_failure_witness:
  "envelope_written ex_codec ex_writer
     \<lparr>Kind = [], APIVersion = [], Request = None,
      Response = Some \<lparr>resp_UID = [], Allowed = False,
                        Result = Some \<lparr>Message = ''couldn't get version/kind; json parse error'',
                                        Code = 500\<rparr>\<rparr>\<rparr>
     (Handler ex_codec ex_server ex_writer
        (ex_request ''/validate'' ''application/json'' ''{kind:''))"
proof -
  let ?ar = "\<lparr>Kind = [], APIVersion = [], Request = None, Response = None\<rparr>"
  let ?e = "''couldn't get version/kind; json parse error''"
  let ?env = "\<lparr>Kind = Kind ?ar, APIVersion = APIVersion ?ar, Request = None,
               Response = Some \<lparr>resp_UID = (case Request ?ar of None \<Rightarrow> [] | Some req \<Rightarrow> UID req),
                                 Allowed = False,
                                 Result = Some \<lparr>Message = ?e, Code = 500\<rparr>\<rparr>\<rparr>"
  have h1: "Body (ex_request ''/validate'' ''application/json'' ''{kind:'') = Some (''{kind:'', None)"
    by (simp add: ex_request_def)
  have h2: "''{kind:'' \<noteq> []" by simp
  have h3: "Header_Get (Header (ex_request ''/validate'' ''application/json'' ''{kind:''))
              ''Content-Type'' = ''application/json''"
    by (simp add: ex_request_def Header_Get_def)
  have h4: "Decode ex_codec ''{kind:'' = (?ar, Some ?e)"
    by (simp add: ex_codec_def ex_Decode_def ex_body_def ex_body_norequest_def)
  have h5: "Marshal ex_codec ?env = Inr (ex_encode ?env)"
    by (simp add: ex_codec_def)
  have h6: "\<not> wroteHeader ex_writer" and h7: "\<not> broken ex_writer"
    by (simp_all add: ex_writer_def)
  show ?thesis
    using Handler_decode_failure [OF h1 h2 h3 h4 h5 h6 h7, of ex_server] by simp
qed

text \<open>
  On every path other than \<open>/validate\<close>, \<open>/mutate\<close> among them, a body that decodes without
  error gets an envelope without a response, whether the review carries a request or not.
\<close>

lemma Handler_other_path_no_response:
  assumes "Body request = Some (body, None)" and "body \<noteq> []"
    and "Header_Get (Header request) ''Content-Type'' = ''application/json''"
    and "Decode k body = (ar, None)"
    and "URL_Path request \<noteq> ''/validate''"
    and "Marshal k \<lparr>Kind = Kind ar, APIVersion = APIVersion ar, Request = None,
                    Response = None\<rparr> = Inr bs"
    and "\<not> wroteHeader writer" and "\<not> broken writer"
  shows "envelope_written k writer
           \<lparr>Kind = Kind ar, APIVersion = APIVersion ar, Request = None, Response = None\<rparr>
           (Handler k s writer request)"
proof -
  have "Handler k s writer request =
          Inr (writer\<lparr>wroteHeader := True, status := StatusOK, written := written writer @ bs\<rparr>)"
    using assms(5,6)
    by (simp add: Handler_decoded [OF assms(1-4)] Write_fresh [OF assms(7,8)])
  then show ?thesis using assms(6) by (simp add: envelope_written_def outer_status_def)
qed

text \<open>
  Claim C6, as amended. Take a request whose body decodes without error to a review that
  carries a request. Routed to \<open>/validate\<close>, the handler writes an envelope whose response
  carries the UID of that request, whatever \<open>validate\<close> decided (malformed workload, denial
  or admission). Routed to any other path, \<open>/mutate\<close> among them, the handler writes an
  envelope without a response, hence without a UID. The encoder is asked to encode the
  envelopes the handler builds, which carry no request; the writer is fresh and its
  connection open.
\<close>

theorem Handler_validate_echoes_UID:
  assumes "Body request = Some (body, None)" and "body \<noteq> []"
    and "Header_Get (Header request) ''Content-Type'' = ''application/json''"
    and "Decode k body = (ar, None)"
    and "Request ar = Some req"
    and "\<forall>review. Request review = None \<longrightarrow> (\<exists>bs. Marshal k review = Inr bs)"
    and "\<not> wroteHeader writer" and "\<not> broken writer"
  shows "if URL_Path request = ''/validate''
         then \<exists>resp. envelope_written k writer
                  \<lparr>Kind = Kind ar, APIVersion = APIVersion ar, Request = None,
                   Response = Some resp\<rparr>
                  (Handler k s writer request)
                \<and> resp_UID resp = UID req
         else envelope_written k writer
                \<lparr>Kind = Kind ar, APIVersion = APIVersion ar, Request = None, Response = None\<rparr>
                (Handler k s writer request)"
proof (cases "URL_Path request = ''/validate''")
  case True
  from validate_with_request [OF assms(5)] obtain r where r: "validate k s ar = Inr r" by blast
  let ?r = "\<lparr>Kind = Kind ar, APIVersion = APIVersion ar, Request = None,
             Response = Some (r\<lparr>resp_UID := UID req\<rparr>)\<rparr>"
  have "Request ?r = None" by simp
  with assms(6) obtain bs where bs: "Marshal k ?r = Inr bs" by blast
  have "Handler k s writer request =
          Inr (writer\<lparr>wroteHeader := True, status := StatusOK, written := written writer @ bs\<rparr>)"
    using bs r assms(5) True
    by (simp add: Handler_decoded [OF assms(1-4)] Write_fresh [OF assms(7,8)])
  then have "envelope_written k writer ?r (Handler k s writer request)"
    using bs by (simp add: envelope_written_def outer_status_def)
  moreover have "resp_UID (r\<lparr>resp_UID := UID req\<rparr>) = UID req" by simp
  ultimately have "\<exists>resp. envelope_written k writer
                  \<lparr>Kind = Kind ar, APIVersion = APIVersion ar, Request = None,
                   Response = Some resp\<rparr>
                  (Handler k s writer request)
                \<and> resp_UID resp = UID req"
    by blast
  with True show ?thesis by simp
next
  case False
  let ?r = "\<lparr>Kind = Kind ar, APIVersion = APIVersion ar, Request = None, Response = None\<rparr>"
  have "Request ?r = None" by simp
  with assms(6) obtain bs where bs: "Marshal k ?r = Inr bs" by blast
  from Handler_other_path_no_response [OF assms(1-4) False bs assms(7,8)] False
  show ?thesis by simp
qed

text \<open>The two routes on the examples: a denied pod on \<open>/validate\<close>, a pod on \<open>/mutate\<close>.\<close>

theorem Handler_validate_echoes_UID_witness:
  "(\<exists>resp. envelope_written ex_codec ex_writer
       \<lparr>Kind = ''AdmissionReview'', APIVersion = ''admission.k8s.io/v1'', Request = None,
        Response = Some resp\<rparr>
       (Handler ex_codec ex_server ex_writer
          (ex_request ''/validate'' ''application/json'' (ex_body ex_raw_bad)))
     \<and> resp_UID resp = ''705ab4f5-6393-11e8-b7cc-42010a800002'')
   \<and> envelope_written ex_codec ex_writer
       \<lparr>Kind = ''AdmissionReview'', APIVersion = ''admission.k8s.io/v1'', Request = None,
        Response = None\<rparr>
       (Handler ex_codec ex_server ex_writer
          (ex_request ''/mutate'' ''application/json'' (ex_body ex_raw_bad)))"
proof -
  let ?rq = "ex_request ''/validate'' ''application/json'' (ex_body ex_raw_bad)"
  let ?rm = "ex_request ''/mutate'' ''application/json'' (ex_body ex_raw_bad)"
  have h1: "Body ?rq = Some (ex_body ex_raw_bad, None)"
    and m1: "Body ?rm = Some (ex_body ex_raw_bad, None)"
    by (simp_all add: ex_request_def)
  have h2: "ex_body ex_raw_bad \<noteq> []" by (simp add: ex_body_def)
  have h3: "Header_Get (Header ?rq) ''Content-Type'' = ''application/json''"
    and m3: "Header_Get (Header ?rm) ''Content-Type'' = ''application/json''"
    by (simp_all add: ex_request_def Header_Get_def)
  have h4: "Decode ex_codec (ex_body ex_raw_bad) = (ex_review ex_raw_bad, None)"
    by (simp add: ex_codec_def ex_Decode_def)
  have h5: "Request (ex_review ex_raw_bad) =
              Some \<lparr>UID = ''705ab4f5-6393-11e8-b7cc-42010a800002'', Kind_Kind = ''Pod'',
                    Namespace = ''default'', Name = ''web'', Object = \<lparr>Raw = ex_raw_bad\<rparr>\<rparr>"
    by (simp add: ex_review_def)
  have h6: "\<forall>review. Request review = None \<longrightarrow> (\<exists>bs. Marshal ex_codec review = Inr bs)"
    by (simp add: ex_codec_def)
  have h7: "\<not> wroteHeader ex_writer" and h8: "\<not> broken ex_writer"
    by (simp_all add: ex_writer_def)
  have pv: "URL_Path ?rq = ''/validate''" and pm: "URL_Path ?rm \<noteq> ''/validate''"
    by (simp_all add: ex_request_def)
  show ?thesis
    using Handler_validate_echoes_UID [OF h1 h2 h3 h4 h5 h6 h7 h8, of ex_server]
      Handler_validate_echoes_UID [OF m1 h2 m3 h4 h5 h6 h7 h8, of ex_server] pv pm
    by (simp add: ex_review_def)
qed

text \<open>The claim as stated fails on \<open>/mutate\<close>: the body decodes to a review whose request
  has a UID, and the envelope written has no response, so no UID at all.\<close>

theorem Handler_mutate_UID_counterexample:
  "Decode ex_codec (ex_body ex_raw_good) = (ex_review ex_raw_good, None)
   \<and> map_option UID (Request (ex_review ex_raw_good))
       = Some ''705ab4f5-6393-11e8-b7cc-42010a800002''
   \<and> envelope_written ex_codec ex_writer
        \<lparr>Kind = ''AdmissionReview'', APIVersion = ''admission.k8s.io/v1'',
         Request = None, Response = None\<rparr>
        (Handler ex_codec ex_server ex_writer
           (ex_request ''/mutate'' ''application/json'' (ex_body ex_raw_good)))
   \<and> map_option resp_UID (Response \<lparr>Kind = ''AdmissionReview'',
         APIVersion = ''admission.k8s.io/v1'', Request = None, Response = None\<rparr>)
       \<noteq> map_option UID (Request (ex_review ex_raw_good))"
  by (simp add: Handler_def Let_def Header_Get_def envelope_written_def outer_status_def
        Write_def WriteHeader_def ex_defs)

text \<open>
  Claim C7. For a request to \<open>/validate\<close> that decodes to a review whose raw object does
  not unmarshal as a pod, with error \<open>e\<close>, the handler writes, with status 200, an
  envelope whose decision is: not allowed, code 400, message \<open>e\<close>. The only thing asked of
  the encoder is that it encodes this one envelope; the writer is fresh and its connection
  open.
\<close>

theorem Handler_malformed_workload:
  assumes "Body request = Some (body, None)" and "body \<noteq> []"
    and "Header_Get (Header request) ''Content-Type'' = ''application/json''"
    and "Decode k body = (ar, None)"
    and "Request ar = Some req"
    and "URL_Path request = ''/validate''"
    and "Unmarshal_Pod k (Raw (Object req)) = Inl e"
    and "Marshal k
           \<lparr>Kind = Kind ar, APIVersion = APIVersion ar, Request = None,
            Response = Some \<lparr>resp_UID = UID req, Allowed = False,
                              Result = Some \<lparr>Message = e, Code = 400\<rparr>\<rparr>\<rparr> = Inr bs"
    and "\<not> wroteHeader writer" and "\<not> broken writer"
  shows "envelope_written k writer
           \<lparr>Kind = Kind ar, APIVersion = APIVersion ar, Request = None,
            Response = Some \<lparr>resp_UID = UID req, Allowed = False,
                              Result = Some \<lparr>Message = e, Code = 400\<rparr>\<rparr>\<rparr>
           (Handler k s writer request)"
proof -
  have v: "validate k s ar = Inr \<lparr>resp_UID = [], Allowed = False,
                              Result = Some \<lparr>Message = e, Code = 400\<rparr>\<rparr>"
    using assms(5,7) by (simp add: validate_def)
  have "Handler k s writer request =
          Inr (writer\<lparr>wroteHeader := True, status := StatusOK, written := written writer @ bs\<rparr>)"
    using assms(8) v assms(5,6)
    by (simp add: Handler_decoded [OF assms(1-4)] Write_fresh [OF assms(9,10)])
  then show ?thesis using assms(8) by (simp add: envelope_written_def outer_status_def)
qed

theorem Handler_malformed_workload_witness:
  "envelope_written ex_codec ex_writer
     \<lparr>Kind = ''AdmissionReview'', APIVersion = ''admission.k8s.io/v1'', Request = None,
      Response = Some \<lparr>resp_UID = ''705ab4f5-6393-11e8-b7cc-42010a800002'', Allowed = False,
         Result = Some \<lparr>Message = ''json: cannot unmarshal string into Go struct field PodSpec.spec.containers of type []v1.Container'',
                         Code = 400\<rparr>\<rparr>\<rparr>
     (Handler ex_codec ex_server ex_writer
        (ex_request ''/validate'' ''application/json'' (ex_body ex_raw_notpod)))"
proof -
  let ?rq = "ex_request ''/validate'' ''application/json'' (ex_body ex_raw_notpod)"
  let ?req = "\<lparr>UID = ''705ab4f5-6393-11e8-b7cc-42010a800002'', Kind_Kind = ''Pod'',
               Namespace = ''default'', Name = ''web'', Object = \<lparr>Raw = ex_raw_notpod\<rparr>\<rparr>"
  let ?e = "''json: cannot unmarshal string into Go struct field PodSpec.spec.containers of type []v1.Container''"
  let ?env = "\<lparr>Kind = Kind (ex_review ex_raw_notpod),
               APIVersion = APIVersion (ex_review ex_raw_notpod), Request = None,
               Response = Some \<lparr>resp_UID = UID ?req, Allowed = False,
                                 Result = Some \<lparr>Message = ?e, Code = 400\<rparr>\<rparr>\<rparr>"
  have h1: "Body ?rq = Some (ex_body ex_raw_notpod, None)"
    by (simp add: ex_request_def)
  have h2: "ex_body ex_raw_notpod \<noteq> []" by (simp add: ex_body_def)
  have h3: "Header_Get (Header ?rq) ''Content-Type'' = ''application/json''"
    by (simp add: ex_request_def Header_Get_def)
  have h4: "Decode ex_codec (ex_body ex_raw_notpod) = (ex_review ex_raw_notpod, None)"
    by (simp add: ex_codec_def ex_Decode_def ex_body_def ex_raw_notpod_def ex_raw_bad_def
          ex_raw_good_def)
  have h5: "Request (ex_review ex_raw_notpod) = Some ?req"
    by (simp add: ex_review_def)
  have h6: "URL_Path ?rq = ''/validate''" by (simp add: ex_request_def)
  have h7: "Unmarshal_Pod ex_codec (Raw (Object ?req)) = Inl ?e"
    by (simp add: ex_codec_def ex_Unmarshal_Pod_def ex_raw_notpod_def ex_raw_bad_def
          ex_raw_good_def)
  have h8: "Marshal ex_codec ?env = Inr (ex_encode ?env)"
    by (simp add: ex_codec_def)
  have h9: "\<not> wroteHeader ex_writer" and h10: "\<not> broken ex_writer"
    by (simp_all add: ex_writer_def)
  show ?thesis
    using Handler_malformed_workload [OF h1 h2 h3 h4 h5 h6 h7 h8 h9 h10, of ex_server]
    by (simp add: ex_review_def)
qed

end
